theory Spec2Isabelle
  imports Complex_Main "HOL-Library.Word"
begin

unbundle bit_operations_syntax

section \<open>Stopwatch and voltage display firmware (main.cpp)\<close>

text \<open>
  The firmware keeps its whole state in global variables that are changed by two
  ticker callbacks (\<open>updateTime\<close>, \<open>updateDisplay\<close>) and three button handlers.
  Each callback is modelled as one function on a record of the globals. Writes to the
  three output pins and the delays are collected, in order, in a list of events.

  Conventions of the embedding:
  \<^item> \<open>int\<close> variables of the program are HOL integers; the result of \<open>++\<close> and \<open>+\<close> is
    reduced to the 32-bit two's complement range by \<open>wrap32\<close>. C leaves signed overflow
    undefined; no theorem below is about a state where it happens.
  \<^item> \<open>/\<close> and \<open>%\<close> on \<open>int\<close> truncate towards zero (\<open>cdiv\<close>, \<open>cmod\<close>).
  \<^item> \<open>uint8_t\<close> is \<open>8 word\<close>.
  \<^item> \<open>float\<close> values are the real numbers they denote. \<open>pot.read()\<close> yields a finite
    value, so no NaN arises and \<open>fmin\<close>, \<open>fmax\<close> are the minimum and maximum of the
    order. Rounding of the products is not modelled.
  \<^item> reading an array outside its bounds is the error \<open>IndexOutOfRange\<close>.
\<close>

subsection \<open>C arithmetic\<close>

type_synonym u8 = "8 word"

definition wrap32 :: "int \<Rightarrow> int" where
  "wrap32 x = signed_take_bit 31 x"

definition cdiv :: "int \<Rightarrow> int \<Rightarrow> int" where
  "cdiv a b = sgn a * sgn b * (\<bar>a\<bar> div \<bar>b\<bar>)"

definition cmod :: "int \<Rightarrow> int \<Rightarrow> int" where
  "cmod a b = a - b * cdiv a b"

definition fmin :: "real \<Rightarrow> real \<Rightarrow> real" where
  "fmin x y = (if y < x then y else x)"

definition fmax :: "real \<Rightarrow> real \<Rightarrow> real" where
  "fmax x y = (if x < y then y else x)"

text \<open>Conversion of a \<open>float\<close> to \<open>int\<close> discards the fractional part.\<close>

definition float_to_int :: "real \<Rightarrow> int" where
  "float_to_int x = (if 0 \<le> x then \<lfloor>x\<rfloor> else \<lceil>x\<rceil>)"

datatype error = IndexOutOfRange

definition array_get :: "'a list \<Rightarrow> int \<Rightarrow> error + 'a" where
  "array_get xs i =
     (if 0 \<le> i \<and> i < int (length xs) then Inr (xs ! nat i) else Inl IndexOutOfRange)"

subsection \<open>Constants\<close>

definition DIGIT_REFRESH_DELAY_MS :: nat where
  "DIGIT_REFRESH_DELAY_MS = 4"

definition DP_POS :: int where
  "DP_POS = 1"

definition VREF :: real where
  "VREF = 3.3"

definition digitBits :: "u8 list" where
  "digitBits = [0xC0, 0xF9, 0xA4, 0xB0, 0x99, 0x92, 0x82, 0xF8, 0x80, 0x90]"

definition digitPos :: "u8 list" where
  "digitPos = [0x01, 0x02, 0x04, 0x08]"

subsection \<open>Global variables and outputs\<close>

record state =
  seconds :: int
  minutes :: int
  showVolt :: bool
  currentDigit :: int
  minVoltage :: real
  maxVoltage :: real

definition initial_state :: state where
  "initial_state =
     \<lparr>seconds = 0, minutes = 0, showVolt = False, currentDigit = 0,
      minVoltage = 3.3, maxVoltage = 0.0\<rparr>"

datatype pin = latchPin | clockPin | dataPin

text \<open>\<open>Write p v\<close> is the assignment \<open>p = v\<close> to a \<open>DigitalOut\<close>;
  \<open>Sleep n\<close> is \<open>ThisThread::sleep_for(n)\<close>.\<close>

datatype event = Write pin int | Sleep nat

subsection \<open>Shift register\<close>

text \<open>The loop \<open>for (int i = 7; i >= 0; i--)\<close> of \<open>shiftOutMSBFirst\<close>, from counter \<open>i\<close> on.\<close>

function shiftOut_loop :: "u8 \<Rightarrow> int \<Rightarrow> event list" where
  "shiftOut_loop v i =
     (if i \<ge> 0 then
        [Write dataPin (drop_bit (nat i) (uint v) AND 1), Write clockPin 1, Write clockPin 0]
        @ shiftOut_loop v (i - 1)
      else [])"
  by pat_completeness auto
termination
  by (relation "measure (\<lambda>(v, i). nat (i + 1))") auto

declare shiftOut_loop.simps [simp del]

definition shiftOutMSBFirst :: "u8 \<Rightarrow> event list" where
  "shiftOutMSBFirst v = shiftOut_loop v 7"

definition writeToShiftRegister :: "u8 \<Rightarrow> u8 \<Rightarrow> event list" where
  "writeToShiftRegister bits digit =
     [Write latchPin 0] @ shiftOutMSBFirst bits @ shiftOutMSBFirst digit @ [Write latchPin 1]"

subsection \<open>Time accumulator\<close>

definition updateTime :: "state \<Rightarrow> state" where
  "updateTime s =
     (let s1 = s\<lparr>seconds := wrap32 (seconds s + 1)\<rparr> in
      if seconds s1 \<ge> 60 then
        s1\<lparr>seconds := 0, minutes := cmod (wrap32 (minutes s1 + 1)) 100\<rparr>
      else s1)"

subsection \<open>Display refresh\<close>

text \<open>The initialiser of \<open>int digits[4]\<close>, as a function of the value of \<open>dispVal\<close>.\<close>

definition digits_init :: "int \<Rightarrow> int list" where
  "digits_init dispVal =
     [cmod (cdiv dispVal 1000) 10, cmod (cdiv dispVal 100) 10,
      cmod (cdiv dispVal 10) 10, cmod dispVal 10]"

text \<open>The declarations of \<open>dispVal\<close> and \<open>digits\<close> that open \<open>updateDisplay\<close>.\<close>

definition updateDisplay_init :: "state \<Rightarrow> int \<times> int list" where
  "updateDisplay_init s = (let dispVal = 0; digits = digits_init dispVal in (dispVal, digits))"

text \<open>
  The loop \<open>for (int i = 0; i < 4; ++i)\<close>, from counter \<open>i\<close> on. It carries the globals,
  the local \<open>dispVal\<close> and the events so far. \<open>sample\<close> is what \<open>pot.read()\<close> returns;
  it is read at most once in a pass, at position \<open>DP_POS\<close>. The body first looks the
  segment byte up, then runs the \<open>if\<close> (which yields the byte, the globals and \<open>dispVal\<close>
  as it leaves them), then writes and sleeps.
\<close>

function updateDisplay_loop ::
  "real \<Rightarrow> int list \<Rightarrow> int \<Rightarrow> state \<times> int \<times> event list \<Rightarrow> error + (state \<times> int \<times> event list)"
where
  "updateDisplay_loop sample digits i (s, dispVal, tr) =
     (if i < 4 then
        (case array_get digits i of
           Inl e \<Rightarrow> Inl e
         | Inr d \<Rightarrow>
        (case array_get digitBits d of
           Inl e \<Rightarrow> Inl e
         | Inr bits \<Rightarrow>
        (case (if showVolt s \<and> i = DP_POS then
                 (let bits' = bits AND NOT 0x80;
                      voltage = sample * VREF;
                      s' = s\<lparr>minVoltage := fmin (minVoltage s) voltage\<rparr>;
                      s'' = s'\<lparr>maxVoltage := fmax (maxVoltage s') voltage\<rparr>;
                      dispVal' = float_to_int (voltage * 100)
                  in (bits', s'', dispVal'))
               else (bits, s, dispVal)) of
           (bits1, s1, dispVal1) \<Rightarrow>
        (case array_get digitPos i of
           Inl e \<Rightarrow> Inl e
         | Inr pos \<Rightarrow>
             updateDisplay_loop sample digits (i + 1)
               (s1, dispVal1,
                tr @ writeToShiftRegister bits1 pos @ [Sleep DIGIT_REFRESH_DELAY_MS])))))
      else Inr (s, dispVal, tr))"
  by pat_completeness auto
termination
  by (relation "measure (\<lambda>(sample, digits, i, c). nat (4 - i))") auto

declare updateDisplay_loop.simps [simp del]

definition updateDisplay :: "real \<Rightarrow> state \<Rightarrow> error + (state \<times> event list)" where
  "updateDisplay sample s =
     (let (dispVal, digits) = updateDisplay_init s in
      case updateDisplay_loop sample digits 0 (s, dispVal, []) of
        Inl e \<Rightarrow> Inl e
      | Inr (s', dispVal', tr) \<Rightarrow> Inr (s', tr))"

subsection \<open>Button handlers\<close>

definition resetTimeISR :: "state \<Rightarrow> state" where
  "resetTimeISR s = s\<lparr>seconds := 0, minutes := 0\<rparr>"

definition toggleVoltModeISR :: "state \<Rightarrow> state" where
  "toggleVoltModeISR s = s\<lparr>showVolt := True\<rparr>"

definition releaseVoltModeISR :: "state \<Rightarrow> state" where
  "releaseVoltModeISR s = s\<lparr>showVolt := False\<rparr>"

subsection \<open>The callbacks attached in \<open>main\<close>\<close>

text \<open>
  \<open>main\<close> attaches \<open>resetTimeISR\<close> to the rising edge of the reset button,
  \<open>toggleVoltModeISR\<close> and \<open>releaseVoltModeISR\<close> to the falling and rising edge of the
  mode button, \<open>updateTime\<close> to the one-second ticker and \<open>updateDisplay\<close> to the display
  ticker. A trigger names one callback invocation; the display tick carries the value
  the sensor would return. Each callback runs to completion before the next starts.
\<close>

datatype trigger = TimerTick | DisplayTick real | ResetRise | ModeFall | ModeRise

fun is_DisplayTick :: "trigger \<Rightarrow> bool" where
  "is_DisplayTick (DisplayTick r) = True"
| "is_DisplayTick _ = False"

fun dispatch :: "trigger \<Rightarrow> state \<Rightarrow> error + state" where
  "dispatch TimerTick s = Inr (updateTime s)"
| "dispatch (DisplayTick r) s =
     (case updateDisplay r s of Inl e \<Rightarrow> Inl e | Inr (s', tr) \<Rightarrow> Inr s')"
| "dispatch ResetRise s = Inr (resetTimeISR s)"
| "dispatch ModeFall s = Inr (toggleVoltModeISR s)"
| "dispatch ModeRise s = Inr (releaseVoltModeISR s)"

text \<open>\<open>run ts s\<close> is the list of states after each trigger of \<open>ts\<close>, starting in \<open>s\<close>.\<close>

fun run :: "trigger list \<Rightarrow> state \<Rightarrow> error + state list" where
  "run [] s = Inr []"
| "run (t # ts) s =
     (case dispatch t s of
        Inl e \<Rightarrow> Inl e
      | Inr s' \<Rightarrow> (case run ts s' of Inl e \<Rightarrow> Inl e | Inr ss \<Rightarrow> Inr (s' # ss)))"

subsection \<open>Predicates and observations used in the theorems\<close>

text \<open>The ranges the data model gives the two counters.\<close>

definition time_inv :: "state \<Rightarrow> bool" where
  "time_inv s \<longleftrightarrow> 0 \<le> seconds s \<and> seconds s \<le> 59 \<and> 0 \<le> minutes s \<and> minutes s \<le> 99"

text \<open>
  A write to the shift register ends with the latch going high, and the latch is raised
  nowhere else, so the number of writes in a list of events is the number of these events.
\<close>

definition latch_strobes :: "event list \<Rightarrow> nat" where
  "latch_strobes tr = length (filter (\<lambda>e. e = Write latchPin 1) tr)"

definition shift_register_writes :: "real \<Rightarrow> state \<Rightarrow> error + nat" where
  "shift_register_writes sample s =
     (case updateDisplay sample s of Inl e \<Rightarrow> Inl e | Inr (s', tr) \<Rightarrow> Inr (latch_strobes tr))"

text \<open>The events of one refresh pass, without the state.\<close>

definition refresh_events :: "real \<Rightarrow> state \<Rightarrow> error + event list" where
  "refresh_events sample s =
     (case updateDisplay sample s of Inl e \<Rightarrow> Inl e | Inr (s', tr) \<Rightarrow> Inr tr)"

section \<open>Auxiliary facts\<close>

subsection \<open>Arithmetic inside the representable range\<close>

lemma wrap32_id: "- 2147483648 \<le> x \<Longrightarrow> x < 2147483648 \<Longrightarrow> wrap32 x = x"
  unfolding wrap32_def by (rule signed_take_bit_int_eq_self) simp_all

lemma cdiv_nonneg: "0 \<le> a \<Longrightarrow> 0 < b \<Longrightarrow> cdiv a b = a div b"
  by (simp add: cdiv_def sgn_if)

lemma cmod_nonneg: "0 \<le> a \<Longrightarrow> 0 < b \<Longrightarrow> cmod a b = a mod b"
  by (simp add: cmod_def cdiv_def sgn_if minus_mult_div_eq_mod)

subsection \<open>The events of a byte\<close>

text \<open>The eight iterations of the loop, with the data bit written arithmetically.\<close>

lemma shiftOutMSBFirst_bits:
  "shiftOutMSBFirst v =
     concat (map (\<lambda>k. [Write dataPin (uint v div 2 ^ (7 - k) mod 2),
                        Write clockPin 1, Write clockPin 0]) [0..<8])"
  by (simp add: shiftOutMSBFirst_def shiftOut_loop.simps upt_rec drop_bit_eq_div and_one_eq)

lemma latch_strobes_Nil [simp]: "latch_strobes [] = 0"
  by (simp add: latch_strobes_def)

lemma latch_strobes_Cons [simp]:
  "latch_strobes (e # tr) = (if e = Write latchPin 1 then 1 else 0) + latch_strobes tr"
  by (simp add: latch_strobes_def)

lemma latch_strobes_append [simp]:
  "latch_strobes (xs @ ys) = latch_strobes xs + latch_strobes ys"
  by (simp add: latch_strobes_def)

lemma latch_strobes_shiftOut [simp]: "latch_strobes (shiftOutMSBFirst v) = 0"
  by (simp add: shiftOutMSBFirst_bits upt_rec)

lemma latch_strobes_write [simp]: "latch_strobes (writeToShiftRegister b d) = 1"
  by (simp add: writeToShiftRegister_def)

subsection \<open>One refresh pass in closed form\<close>

text \<open>
  Running the four iterations of the loop: the pass cannot fail, the globals change only
  in the two voltage bounds and only when \<open>showVolt\<close> is set, and the four segment
  bytes are the pattern of the digit 0 (with the decimal point at position 1 when
  \<open>showVolt\<close> is set).
\<close>

lemma updateDisplay_eq:
  "updateDisplay sample s =
     Inr (if showVolt s then
            s\<lparr>minVoltage := fmin (minVoltage s) (sample * VREF),
              maxVoltage := fmax (maxVoltage s) (sample * VREF)\<rparr>
          else s,
          writeToShiftRegister 0xC0 0x01 @ [Sleep 4] @
          writeToShiftRegister (if showVolt s then 0x40 else 0xC0) 0x02 @ [Sleep 4] @
          writeToShiftRegister 0xC0 0x04 @ [Sleep 4] @
          writeToShiftRegister 0xC0 0x08 @ [Sleep 4])"
  by (simp add: updateDisplay_def updateDisplay_init_def digits_init_def cmod_def cdiv_def
      updateDisplay_loop.simps array_get_def digitBits_def digitPos_def DP_POS_def
      DIGIT_REFRESH_DELAY_MS_def Let_def)

lemma refresh_events_sample_independent:
  "refresh_events sample s = refresh_events sample' s"
  by (simp add: refresh_events_def updateDisplay_eq)

subsection \<open>One callback\<close>

lemma dispatch_total: "\<exists>s'. dispatch t s = Inr s'"
  by (cases t) (simp_all add: updateDisplay_eq)

lemma dispatch_voltage:
  assumes "dispatch t s = Inr s'"
  shows "minVoltage s' \<le> minVoltage s \<and> maxVoltage s \<le> maxVoltage s' \<and>
         (\<not> (is_DisplayTick t \<and> showVolt s) \<longrightarrow>
            minVoltage s' = minVoltage s \<and> maxVoltage s' = maxVoltage s)"
  using assms
  by (cases t)
     (auto simp: updateDisplay_eq updateTime_def resetTimeISR_def toggleVoltModeISR_def
        releaseVoltModeISR_def fmin_def fmax_def Let_def split: if_splits)

lemma dispatch_time_inv:
  assumes "time_inv s" and "dispatch t s = Inr s'"
  shows "time_inv s'"
  using assms
  by (cases t)
     (auto simp: updateDisplay_eq updateTime_def resetTimeISR_def toggleVoltModeISR_def
        releaseVoltModeISR_def time_inv_def wrap32_id cmod_nonneg Let_def split: if_splits)

lemma run_time_inv:
  "time_inv s \<Longrightarrow>
     \<exists>ss. run ts s = Inr ss \<and> length ss = length ts \<and> (\<forall>s' \<in> set ss. time_inv s')"
proof (induction ts arbitrary: s)
  case Nil
  then show ?case by simp
next
  case (Cons t ts)
  obtain s1 where d: "dispatch t s = Inr s1"
    using dispatch_total by blast
  with Cons.prems have inv1: "time_inv s1"
    by (rule dispatch_time_inv)
  from Cons.IH [OF inv1] obtain ss where "run ts s1 = Inr ss" and "length ss = length ts"
    and "\<forall>s' \<in> set ss. time_inv s'"
    by blast
  with d inv1 show ?case by simp
qed

section \<open>The claims\<close>

subsection \<open>Time accumulator\<close>

text \<open>
  Claim C1. Called with the counters in their ranges (seconds 0 to 59, minutes 0 to 99),
  \<open>updateTime\<close> does this: if seconds is 59, seconds becomes 0 and minutes becomes
  (minutes + 1) modulo 100, so that 99:59 is followed by 0:00; otherwise seconds grows
  by one and minutes stays. Nothing else changes. By C9 every call the firmware makes is
  in these ranges.
\<close>

theorem updateTime_wraps:
  assumes "time_inv s"
  shows "updateTime s =
           (if seconds s = 59 then s\<lparr>seconds := 0, minutes := (minutes s + 1) mod 100\<rparr>
            else s\<lparr>seconds := seconds s + 1\<rparr>) \<and>
         (seconds s = 59 \<and> minutes s = 99 \<longrightarrow> minutes (updateTime s) = 0)"
  using assms
  by (simp add: updateTime_def time_inv_def wrap32_id cmod_nonneg Let_def)

theorem updateTime_wraps_witness:
  "time_inv (initial_state\<lparr>seconds := 59, minutes := 99\<rparr>) \<and>
   updateTime (initial_state\<lparr>seconds := 59, minutes := 99\<rparr>) = initial_state \<and>
   time_inv initial_state \<and>
   updateTime initial_state = initial_state\<lparr>seconds := 1\<rparr>"
proof -
  have a: "time_inv (initial_state\<lparr>seconds := 59, minutes := 99\<rparr>)"
    by (simp add: time_inv_def)
  have b: "time_inv initial_state"
    by (simp add: time_inv_def initial_state_def)
  show ?thesis
    using a b updateTime_wraps [OF a] updateTime_wraps [OF b]
    by (simp add: initial_state_def)
qed

text \<open>
  The range of seconds matters: from a value of 60, which no run of the firmware
  produces, the test \<open>seconds >= 60\<close> resets instead of counting on.
\<close>

lemma updateTime_beyond_range:
  "updateTime (initial_state\<lparr>seconds := 60\<rparr>) = initial_state\<lparr>seconds := 0, minutes := 1\<rparr>"
  by (simp add: updateTime_def initial_state_def wrap32_id cmod_nonneg Let_def)

text \<open>
  Claim C9. The ranges hold in the initial state, \<open>updateTime\<close> and \<open>resetTimeISR\<close>
  preserve them, and every state of every run of callbacks from the initial state, in any
  order and with any sensor values, has seconds in 0 to 59 and minutes in 0 to 99. Every
  such run is defined: no callback fails.
\<close>

theorem time_inv_invariant:
  "time_inv initial_state \<and>
   (\<forall>s. time_inv s \<longrightarrow> time_inv (updateTime s) \<and> time_inv (resetTimeISR s)) \<and>
   (\<forall>ts. \<exists>ss. run ts initial_state = Inr ss \<and> length ss = length ts \<and>
      (\<forall>s \<in> set ss. time_inv s))"
proof (intro conjI allI impI)
  show init: "time_inv initial_state"
    by (simp add: time_inv_def initial_state_def)
  show "time_inv (updateTime s)" if "time_inv s" for s
    using that dispatch_time_inv [of s TimerTick] by simp
  show "time_inv (resetTimeISR s)" if "time_inv s" for s
    using that dispatch_time_inv [of s ResetRise] by simp
  show "\<exists>ss. run ts initial_state = Inr ss \<and> length ss = length ts \<and>
      (\<forall>s \<in> set ss. time_inv s)" for ts
    using run_time_inv [OF init] by blast
qed

theorem time_inv_invariant_witness:
  "time_inv initial_state \<and>
   time_inv (updateTime initial_state) \<and>
   time_inv (resetTimeISR (updateTime initial_state)) \<and>
   (\<exists>ss. run [TimerTick, ResetRise, DisplayTick (1 / 2)] initial_state = Inr ss \<and>
      length ss = 3 \<and> time_inv (ss ! 0) \<and> time_inv (ss ! 1) \<and> time_inv (ss ! 2))"
proof -
  have init: "time_inv initial_state"
    and pres: "\<And>s. time_inv s \<Longrightarrow> time_inv (updateTime s) \<and> time_inv (resetTimeISR s)"
    and runs: "\<And>ts. \<exists>ss. run ts initial_state = Inr ss \<and> length ss = length ts \<and>
      (\<forall>s \<in> set ss. time_inv s)"
    using time_inv_invariant by blast+
  from runs [of "[TimerTick, ResetRise, DisplayTick (1 / 2)]"]
  obtain ss where r: "run [TimerTick, ResetRise, DisplayTick (1 / 2)] initial_state = Inr ss"
    and len: "length ss = 3" and inv: "\<forall>s \<in> set ss. time_inv s"
    by auto
  from len inv have "time_inv (ss ! 0) \<and> time_inv (ss ! 1) \<and> time_inv (ss ! 2)"
    by simp
  with r len init pres [OF init] pres [of "updateTime initial_state"] show ?thesis
    by blast
qed

subsection \<open>Button handlers\<close>

text \<open>
  Claim C5. \<open>resetTimeISR\<close> sets seconds and minutes to 0 whatever they were, and leaves
  every other global (\<open>showVolt\<close>, \<open>currentDigit\<close>, \<open>minVoltage\<close>, \<open>maxVoltage\<close>) as it
  was.
\<close>

theorem resetTimeISR_zeroes:
  "seconds (resetTimeISR s) = 0 \<and> minutes (resetTimeISR s) = 0 \<and>
   showVolt (resetTimeISR s) = showVolt s \<and> currentDigit (resetTimeISR s) = currentDigit s \<and>
   minVoltage (resetTimeISR s) = minVoltage s \<and> maxVoltage (resetTimeISR s) = maxVoltage s"
  by (simp add: resetTimeISR_def)

text \<open>
  Claim C6. \<open>toggleVoltModeISR\<close> sets the mode flag and \<open>releaseVoltModeISR\<close> clears it,
  from every state and changing nothing else; calling either twice in a row gives the
  state that calling it once gives.
\<close>

theorem voltMode_handlers:
  "toggleVoltModeISR s = s\<lparr>showVolt := True\<rparr> \<and>
   releaseVoltModeISR s = s\<lparr>showVolt := False\<rparr> \<and>
   showVolt (toggleVoltModeISR s) \<and> \<not> showVolt (releaseVoltModeISR s) \<and>
   toggleVoltModeISR (toggleVoltModeISR s) = toggleVoltModeISR s \<and>
   releaseVoltModeISR (releaseVoltModeISR s) = releaseVoltModeISR s"
  by (simp add: toggleVoltModeISR_def releaseVoltModeISR_def)

subsection \<open>Shift register\<close>

text \<open>
  Claim C7. For all bytes \<open>bits\<close> and \<open>digit\<close>, \<open>writeToShiftRegister\<close> produces exactly:
  latch low; for k = 0..7 the data pin set to bit 7 - k of \<open>bits\<close>, that is
  (bits >> (7 - k)) & 1, followed by the clock going high and low; the same for
  \<open>digit\<close>; latch high.
\<close>

theorem writeToShiftRegister_events:
  "writeToShiftRegister bits digit =
     [Write latchPin 0] @
     concat (map (\<lambda>k. [Write dataPin (drop_bit (7 - k) (uint bits) AND 1),
                        Write clockPin 1, Write clockPin 0]) [0..<8]) @
     concat (map (\<lambda>k. [Write dataPin (drop_bit (7 - k) (uint digit) AND 1),
                        Write clockPin 1, Write clockPin 0]) [0..<8]) @
     [Write latchPin 1]"
  by (simp add: writeToShiftRegister_def shiftOutMSBFirst_def shiftOut_loop.simps upt_rec)

subsection \<open>Display refresh\<close>

text \<open>
  Claim C2. In every call of \<open>updateDisplay\<close> the value decomposed into digits is the
  constant 0 and not the accumulated time: the array \<open>digits\<close> is [0, 0, 0, 0] for every
  value of seconds and minutes, and the events of the pass do not depend on them.
\<close>

theorem updateDisplay_digits_zero:
  "snd (updateDisplay_init s) = [0, 0, 0, 0] \<and>
   snd (updateDisplay_init (s\<lparr>seconds := sec, minutes := mins\<rparr>)) = [0, 0, 0, 0] \<and>
   refresh_events sample (s\<lparr>seconds := sec, minutes := mins\<rparr>) = refresh_events sample s"
  by (simp add: updateDisplay_init_def digits_init_def cmod_def cdiv_def refresh_events_def
      updateDisplay_eq)

text \<open>
  Claim C3 says that with \<open>showVolt\<close> set the digits written in a pass reflect the sampled
  voltage. The code assigns \<open>dispVal\<close> after \<open>digits\<close> was computed and never reads it
  again. With \<open>showVolt\<close> set and a sensor value of 1/2, \<open>dispVal\<close> becomes 165, whose
  digits are 0, 1, 6, 5; the four segment bytes written are nevertheless the pattern of
  the digit 0 (the second with the decimal point on), the same as for a sensor value
  of 0.
\<close>

theorem updateDisplay_discards_voltage:
  "float_to_int (1 / 2 * VREF * 100) = 165 \<and>
   digits_init 165 = [0, 1, 6, 5] \<and>
   refresh_events (1 / 2) (initial_state\<lparr>showVolt := True\<rparr>) =
     Inr (writeToShiftRegister (digitBits ! 0) 0x01 @ [Sleep 4] @
          writeToShiftRegister (digitBits ! 0 AND NOT 0x80) 0x02 @ [Sleep 4] @
          writeToShiftRegister (digitBits ! 0) 0x04 @ [Sleep 4] @
          writeToShiftRegister (digitBits ! 0) 0x08 @ [Sleep 4]) \<and>
   refresh_events (1 / 2) (initial_state\<lparr>showVolt := True\<rparr>) =
     refresh_events 0 (initial_state\<lparr>showVolt := True\<rparr>)"
  by (simp add: float_to_int_def VREF_def digits_init_def cmod_def cdiv_def refresh_events_def
      updateDisplay_eq initial_state_def digitBits_def)

text \<open>
  Claim C8 as stated, one shift-register write per call of \<open>updateDisplay\<close>, fails: a call
  from the initial state makes four.
\<close>

theorem updateDisplay_one_write_counterexample:
  "shift_register_writes 0 initial_state = Inr 4 \<and>
   shift_register_writes 0 initial_state \<noteq> Inr 1"
  by (simp add: shift_register_writes_def updateDisplay_eq)

text \<open>
  Claim C8, amended. Every call of \<open>updateDisplay\<close> makes exactly four shift-register
  writes, one per iteration of its loop; iteration i selects the single digit line
  \<open>digitPos[i]\<close> (0x01, 0x02, 0x04, 0x08 in this order) and is followed by a delay of 4 ms.
\<close>

theorem updateDisplay_four_writes:
  "shift_register_writes sample s = Inr 4 \<and>
   refresh_events sample s =
     Inr (concat (map (\<lambda>i. writeToShiftRegister
                               (if showVolt s \<and> i = 1 then 0x40 else 0xC0) (digitPos ! i)
                             @ [Sleep 4]) [0..<4])) \<and>
   digitPos = [0x01, 0x02, 0x04, 0x08]"
  by (simp add: shift_register_writes_def refresh_events_def updateDisplay_eq upt_rec
      digitPos_def)

text \<open>
  Claim C10. Every index into \<open>digitBits\<close> in a refresh pass is in 0 to 9: the pass never
  fails with an index out of range, and the digits it uses are in range. More generally
  the digits of any non-negative \<open>dispVal\<close> are in 0 to 9, and the \<open>dispVal\<close> computed
  from a non-negative sensor value is non-negative.
\<close>

theorem digitBits_index_in_bounds:
  "(\<exists>s' tr. updateDisplay sample s = Inr (s', tr)) \<and>
   (\<forall>d \<in> set (snd (updateDisplay_init s)). 0 \<le> d \<and> d < int (length digitBits)) \<and>
   length digitBits = 10 \<and>
   (0 \<le> v \<longrightarrow> (\<forall>d \<in> set (digits_init v). 0 \<le> d \<and> d \<le> 9)) \<and>
   (0 \<le> sample \<longrightarrow> 0 \<le> float_to_int (sample * VREF * 100))"
proof (intro conjI impI)
  show "\<exists>s' tr. updateDisplay sample s = Inr (s', tr)"
    by (simp add: updateDisplay_eq)
  show "\<forall>d \<in> set (snd (updateDisplay_init s)). 0 \<le> d \<and> d < int (length digitBits)"
    by (simp add: updateDisplay_init_def digits_init_def cmod_def cdiv_def digitBits_def)
  show "length digitBits = 10"
    by (simp add: digitBits_def)
  show "\<forall>d \<in> set (digits_init v). 0 \<le> d \<and> d \<le> 9" if "0 \<le> v"
  proof -
    have "0 \<le> cmod (v div k) 10 \<and> cmod (v div k) 10 \<le> 9" if "0 < k" for k
    proof -
      have "0 \<le> v div k"
        using \<open>0 \<le> v\<close> that by (simp add: pos_imp_zdiv_nonneg_iff)
      then have "cmod (v div k) 10 = (v div k) mod 10"
        by (simp add: cmod_nonneg)
      then show ?thesis by simp
    qed
    from this [of 1000] this [of 100] this [of 10] this [of 1] that show ?thesis
      by (simp add: digits_init_def cdiv_nonneg)
  qed
  show "0 \<le> float_to_int (sample * VREF * 100)" if "0 \<le> sample"
    using that by (simp add: float_to_int_def VREF_def)
qed

theorem digitBits_index_in_bounds_witness:
  "(\<exists>s' tr. updateDisplay (1 / 2) (initial_state\<lparr>showVolt := True\<rparr>) = Inr (s', tr)) \<and>
   (0::int) \<le> 165 \<and> digits_init 165 = [0, 1, 6, 5] \<and>
   list_all (\<lambda>d. 0 \<le> d \<and> d \<le> 9) (digits_init 165) \<and>
   (0::real) \<le> 1 / 2 \<and> 0 \<le> float_to_int (1 / 2 * VREF * 100)"
  using digitBits_index_in_bounds [of "1 / 2" "initial_state\<lparr>showVolt := True\<rparr>" 165]
  by (simp add: list_all_iff digits_init_def cmod_def cdiv_def)

text \<open>
  The bound on \<open>dispVal\<close> is needed: the digits of a negative value are negative under
  C's remainder, and the loop run on them stops at the table lookup.
\<close>

lemma updateDisplay_loop_negative_digit:
  "digits_init (- 1) = [0, 0, 0, - 1] \<and>
   updateDisplay_loop sample (digits_init (- 1)) 0 (initial_state, - 1, []) = Inl IndexOutOfRange"
  by (simp add: digits_init_def cmod_def cdiv_def updateDisplay_loop.simps array_get_def
      digitBits_def digitPos_def DP_POS_def initial_state_def)

subsection \<open>Voltage bounds\<close>

text \<open>
  Claim C4. Along every finite run of callbacks from any state, with any sensor values
  and with the mode flag set and cleared at will between the calls of \<open>updateDisplay\<close>,
  \<open>minVoltage\<close> never increases and \<open>maxVoltage\<close> never decreases from one state to the
  next, and both are unchanged by every step other than a call of \<open>updateDisplay\<close> with
  the mode flag set. The run is defined for every input.
\<close>

theorem voltage_bounds_monotone:
  "\<exists>ss. run ts s = Inr ss \<and> length ss = length ts \<and>
     (\<forall>k < length ts.
        minVoltage ((s # ss) ! Suc k) \<le> minVoltage ((s # ss) ! k) \<and>
        maxVoltage ((s # ss) ! k) \<le> maxVoltage ((s # ss) ! Suc k) \<and>
        (\<not> (is_DisplayTick (ts ! k) \<and> showVolt ((s # ss) ! k)) \<longrightarrow>
           minVoltage ((s # ss) ! Suc k) = minVoltage ((s # ss) ! k) \<and>
           maxVoltage ((s # ss) ! Suc k) = maxVoltage ((s # ss) ! k)))"
proof (induction ts arbitrary: s)
  case Nil
  then show ?case by simp
next
  case (Cons t ts)
  obtain s1 where d: "dispatch t s = Inr s1"
    using dispatch_total by blast
  note first = dispatch_voltage [OF d]
  from Cons.IH [of s1] obtain ss where r: "run ts s1 = Inr ss" and len: "length ss = length ts"
    and rest: "\<forall>k < length ts.
        minVoltage ((s1 # ss) ! Suc k) \<le> minVoltage ((s1 # ss) ! k) \<and>
        maxVoltage ((s1 # ss) ! k) \<le> maxVoltage ((s1 # ss) ! Suc k) \<and>
        (\<not> (is_DisplayTick (ts ! k) \<and> showVolt ((s1 # ss) ! k)) \<longrightarrow>
           minVoltage ((s1 # ss) ! Suc k) = minVoltage ((s1 # ss) ! k) \<and>
           maxVoltage ((s1 # ss) ! Suc k) = maxVoltage ((s1 # ss) ! k))"
    by blast
  have "run (t # ts) s = Inr (s1 # ss)"
    using d r by simp
  moreover have "length (s1 # ss) = length (t # ts)"
    using len by simp
  moreover have "\<forall>k < length (t # ts).
        minVoltage ((s # s1 # ss) ! Suc k) \<le> minVoltage ((s # s1 # ss) ! k) \<and>
        maxVoltage ((s # s1 # ss) ! k) \<le> maxVoltage ((s # s1 # ss) ! Suc k) \<and>
        (\<not> (is_DisplayTick ((t # ts) ! k) \<and> showVolt ((s # s1 # ss) ! k)) \<longrightarrow>
           minVoltage ((s # s1 # ss) ! Suc k) = minVoltage ((s # s1 # ss) ! k) \<and>
           maxVoltage ((s # s1 # ss) ! Suc k) = maxVoltage ((s # s1 # ss) ! k))"
  proof (intro allI impI)
    fix k assume k: "k < length (t # ts)"
    show "minVoltage ((s # s1 # ss) ! Suc k) \<le> minVoltage ((s # s1 # ss) ! k) \<and>
        maxVoltage ((s # s1 # ss) ! k) \<le> maxVoltage ((s # s1 # ss) ! Suc k) \<and>
        (\<not> (is_DisplayTick ((t # ts) ! k) \<and> showVolt ((s # s1 # ss) ! k)) \<longrightarrow>
           minVoltage ((s # s1 # ss) ! Suc k) = minVoltage ((s # s1 # ss) ! k) \<and>
           maxVoltage ((s # s1 # ss) ! Suc k) = maxVoltage ((s # s1 # ss) ! k))"
    proof (cases k)
      case 0
      then show ?thesis using first by simp
    next
      case (Suc j)
      with k have "j < length ts" by simp
      with rest Suc show ?thesis by simp
    qed
  qed
  ultimately show ?case by blast
qed

theorem voltage_bounds_monotone_witness:
  "(1::nat) < length [ModeFall, DisplayTick (1 / 2), ModeRise, DisplayTick (1 / 4)] \<and>
   (\<exists>ss. run [ModeFall, DisplayTick (1 / 2), ModeRise, DisplayTick (1 / 4)] initial_state = Inr ss \<and>
      length ss = 4 \<and>
      minVoltage (ss ! 1) \<le> minVoltage (ss ! 0) \<and> maxVoltage (ss ! 0) \<le> maxVoltage (ss ! 1) \<and>
      \<not> showVolt (ss ! 2) \<and>
      minVoltage (ss ! 3) = minVoltage (ss ! 2) \<and> maxVoltage (ss ! 3) = maxVoltage (ss ! 2))"
proof -
  let ?ts = "[ModeFall, DisplayTick (1 / 2), ModeRise, DisplayTick (1 / 4)]"
  from voltage_bounds_monotone [of ?ts initial_state]
  obtain ss where r: "run ?ts initial_state = Inr ss" and len: "length ss = 4"
    and mono: "\<forall>k < length ?ts.
        minVoltage ((initial_state # ss) ! Suc k) \<le> minVoltage ((initial_state # ss) ! k) \<and>
        maxVoltage ((initial_state # ss) ! k) \<le> maxVoltage ((initial_state # ss) ! Suc k) \<and>
        (\<not> (is_DisplayTick (?ts ! k) \<and> showVolt ((initial_state # ss) ! k)) \<longrightarrow>
           minVoltage ((initial_state # ss) ! Suc k) = minVoltage ((initial_state # ss) ! k) \<and>
           maxVoltage ((initial_state # ss) ! Suc k) = maxVoltage ((initial_state # ss) ! k))"
    by auto
  from r have off: "\<not> showVolt (ss ! 2)"
    by (auto simp: updateDisplay_eq releaseVoltModeISR_def toggleVoltModeISR_def)
  have k1: "(1::nat) < length ?ts" and k3: "(3::nat) < length ?ts"
    by simp_all
  from mono [rule_format, OF k1]
  have "minVoltage (ss ! 1) \<le> minVoltage (ss ! 0) \<and> maxVoltage (ss ! 0) \<le> maxVoltage (ss ! 1)"
    by simp
  moreover from mono [rule_format, OF k3] off
  have "minVoltage (ss ! 3) = minVoltage (ss ! 2) \<and> maxVoltage (ss ! 3) = maxVoltage (ss ! 2)"
    by simp
  ultimately show ?thesis using r len off by simp
qed

end
